theory Spec2Isabelle
  imports Complex_Main "HOL-Library.Word" "HOL-Library.AList"
begin

unbundle bit_operations_syntax

section \<open>Python values\<close>

text \<open>
  The request body is JSON decoded by Python, so the dictionaries \<open>user_data\<close> and
  \<open>custom_data\<close> of the payload hold arbitrary JSON values. A Python \<open>str\<close> is the list
  of its code points, integers from 0 to 1114111; a JSON text can carry any of them, a
  lone surrogate such as \<open>\ud800\<close> too. \<open>str\<close> turns a literal into such a list. A
  \<open>dict\<close> is an association list in insertion order; the dictionaries Python builds have
  distinct keys. The code only compares keys with ASCII literals and copies them, so a
  key is kept as a byte string, an ASCII key being its own bytes. A float is the real
  number it denotes, or one of the three special values.
\<close>

type_synonym pystr = "int list"

definition str :: "string \<Rightarrow> pystr" where
  "str s = map of_char s"

datatype pyfloat = Finite real | PosInf | NegInf | NaN

datatype pyval =
    PNone
  | PBool bool
  | PInt int
  | PFloat pyfloat
  | PStr pystr
  | PList "pyval list"
  | PDict "(string \<times> pyval) list"

type_synonym pydict = "(string \<times> pyval) list"

text \<open>The exceptions the code can raise. \<open>HTTPException\<close> carries its status code and detail.\<close>

datatype pyerror =
    AttributeError
  | TypeError
  | ValueError
  | OverflowError
  | UnicodeEncodeError
  | HTTPException nat pydict

text \<open>Truth value testing: what \<open>if v\<close>, \<open>not v\<close> and \<open>v or w\<close> look at.\<close>

fun truthy :: "pyval \<Rightarrow> bool" where
  "truthy PNone = False"
| "truthy (PBool b) = b"
| "truthy (PInt n) = (n \<noteq> 0)"
| "truthy (PFloat x) = (x \<noteq> Finite 0)"
| "truthy (PStr s) = (s \<noteq> [])"
| "truthy (PList xs) = (xs \<noteq> [])"
| "truthy (PDict d) = (d \<noteq> [])"

text \<open>\<open>d.get(k, default)\<close>; \<open>d.get(k)\<close> is \<open>map_of d k\<close>, with \<open>None\<close> for Python's None.\<close>

definition dict_get :: "pydict \<Rightarrow> string \<Rightarrow> pyval \<Rightarrow> pyval" where
  "dict_get d k dflt = (case map_of d k of None \<Rightarrow> dflt | Some v \<Rightarrow> v)"

text \<open>\<open>d.update(e)\<close>: each key of \<open>e\<close> is overwritten in place or appended.\<close>

definition dict_update :: "pydict \<Rightarrow> pydict \<Rightarrow> pydict" where
  "dict_update d e = fold (\<lambda>(k, v) acc. AList.update k v acc) e d"

text \<open>\<open>v or None\<close>.\<close>

definition or_none :: "pyval \<Rightarrow> pyval" where
  "or_none v = (if truthy v then v else PNone)"

section \<open>Library functions outside the repository\<close>

text \<open>
  Four tables and parsers of the Python library are taken as parameters, each consulted
  only where the answer is not plain:
  \<open>ipv6_address\<close> says whether \<open>ipaddress.IPv6Address\<close> accepts a text;
  \<open>float_of_str\<close> is \<open>float\<close> on a \<open>str\<close> (\<open>None\<close> for ValueError);
  \<open>unicode_lower\<close> is \<open>str.lower\<close> on a text with a code point above 127;
  \<open>unicode_decimal\<close> says whether a code point above 127 is a decimal digit
  (general category Nd), which is what \<open>\d\<close> matches in a \<open>str\<close> pattern.
\<close>

record pylib =
  ipv6_address :: "pystr \<Rightarrow> bool"
  float_of_str :: "pystr \<Rightarrow> pyfloat option"
  unicode_lower :: "pystr \<Rightarrow> pystr"
  unicode_decimal :: "int \<Rightarrow> bool"

section \<open>String primitives\<close>

definition is_digit :: "int \<Rightarrow> bool" where
  "is_digit c = (48 \<le> c \<and> c \<le> 57)"

text \<open>A decimal digit in Python's sense: 0 to 9 below 128, the table above.\<close>

definition py_isdecimal :: "pylib \<Rightarrow> int \<Rightarrow> bool" where
  "py_isdecimal lib c = (if c < 128 then is_digit c else unicode_decimal lib c)"

text \<open>\<open>str.isspace\<close> of one code point: TAB to CR, FS to US, space, NEL, NBSP, the ogham
  space mark, EN QUAD to HAIR SPACE, the line and paragraph separators, the narrow
  no-break space, the medium mathematical space and the ideographic space.\<close>

definition py_isspace :: "int \<Rightarrow> bool" where
  "py_isspace c =
     ((9 \<le> c \<and> c \<le> 13) \<or> (28 \<le> c \<and> c \<le> 32) \<or> c = 133 \<or> c = 160 \<or> c = 5760 \<or>
      (8192 \<le> c \<and> c \<le> 8202) \<or> c = 8232 \<or> c = 8233 \<or> c = 8239 \<or> c = 8287 \<or>
      c = 12288)"

definition py_strip :: "pystr \<Rightarrow> pystr" where
  "py_strip s = rev (dropWhile py_isspace (rev (dropWhile py_isspace s)))"

text \<open>\<open>str.lower\<close>: on an ASCII text A to Z are moved to a to z; the table decides the
  others.\<close>

definition lower_char :: "int \<Rightarrow> int" where
  "lower_char c = (if 65 \<le> c \<and> c \<le> 90 then c + 32 else c)"

definition py_lower :: "pylib \<Rightarrow> pystr \<Rightarrow> pystr" where
  "py_lower lib s = (if list_all (\<lambda>c. c < 128) s then map lower_char s else unicode_lower lib s)"

type_synonym byte = "8 word"

text \<open>\<open>str.encode()\<close>: UTF-8 in one to four bytes; a surrogate (D800 to DFFF) cannot be
  encoded and raises UnicodeEncodeError, here \<open>None\<close>.\<close>

definition is_surrogate :: "int \<Rightarrow> bool" where
  "is_surrogate c = (55296 \<le> c \<and> c \<le> 57343)"

definition utf8_char :: "int \<Rightarrow> byte list" where
  "utf8_char c =
     (if c < 128 then [word_of_int c]
      else if c < 2048 then [word_of_int (192 + c div 64), word_of_int (128 + c mod 64)]
      else if c < 65536 then
        [word_of_int (224 + c div 4096), word_of_int (128 + c div 64 mod 64),
         word_of_int (128 + c mod 64)]
      else
        [word_of_int (240 + c div 262144), word_of_int (128 + c div 4096 mod 64),
         word_of_int (128 + c div 64 mod 64), word_of_int (128 + c mod 64)])"

definition utf8_encode :: "pystr \<Rightarrow> byte list option" where
  "utf8_encode s = (if list_ex is_surrogate s then None else Some (concat (map utf8_char s)))"

text \<open>\<open>s.split(sep)\<close> for a one-character separator.\<close>

fun split_on :: "'a \<Rightarrow> 'a list \<Rightarrow> 'a list list" where
  "split_on sep [] = [[]]"
| "split_on sep (c # cs) =
     (if c = sep then [] # split_on sep cs
      else (case split_on sep cs of [] \<Rightarrow> [[c]] | p # ps \<Rightarrow> (c # p) # ps))"

section \<open>SHA-256 (\<open>hashlib.sha256\<close>, FIPS 180-4)\<close>

type_synonym u32 = "32 word"

type_synonym sha_state = "u32 \<times> u32 \<times> u32 \<times> u32 \<times> u32 \<times> u32 \<times> u32 \<times> u32"

text \<open>The round constants and the initial hash value of FIPS 180-4, written in decimal:
  the first 32 bits of the fractional parts of the cube roots of the first 64 primes, and
  of the square roots of the first 8 primes.\<close>

definition K256 :: "u32 list" where
  "K256 = [
   1116352408, 1899447441, 3049323471, 3921009573, 961987163, 1508970993,
   2453635748, 2870763221, 3624381080, 310598401, 607225278, 1426881987,
   1925078388, 2162078206, 2614888103, 3248222580, 3835390401, 4022224774,
   264347078, 604807628, 770255983, 1249150122, 1555081692, 1996064986,
   2554220882, 2821834349, 2952996808, 3210313671, 3336571891, 3584528711,
   113926993, 338241895, 666307205, 773529912, 1294757372, 1396182291,
   1695183700, 1986661051, 2177026350, 2456956037, 2730485921, 2820302411,
   3259730800, 3345764771, 3516065817, 3600352804, 4094571909, 275423344,
   430227734, 506948616, 659060556, 883997877, 958139571, 1322822218,
   1537002063, 1747873779, 1955562222, 2024104815, 2227730452, 2361852424,
   2428436474, 2756734187, 3204031479, 3329325298]"

definition H256 :: sha_state where
  "H256 = (1779033703, 3144134277, 1013904242, 2773480762,
           1359893119, 2600822924, 528734635, 1541459225)"

definition rotr :: "nat \<Rightarrow> u32 \<Rightarrow> u32" where
  "rotr n x = drop_bit n x OR push_bit (32 - n) x"

definition Ch :: "u32 \<Rightarrow> u32 \<Rightarrow> u32 \<Rightarrow> u32" where
  "Ch x y z = (x AND y) XOR (NOT x AND z)"

definition Maj :: "u32 \<Rightarrow> u32 \<Rightarrow> u32 \<Rightarrow> u32" where
  "Maj x y z = (x AND y) XOR (x AND z) XOR (y AND z)"

definition Sigma0 :: "u32 \<Rightarrow> u32" where
  "Sigma0 x = rotr 2 x XOR rotr 13 x XOR rotr 22 x"

definition Sigma1 :: "u32 \<Rightarrow> u32" where
  "Sigma1 x = rotr 6 x XOR rotr 11 x XOR rotr 25 x"

definition sigma0 :: "u32 \<Rightarrow> u32" where
  "sigma0 x = rotr 7 x XOR rotr 18 x XOR drop_bit 3 x"

definition sigma1 :: "u32 \<Rightarrow> u32" where
  "sigma1 x = rotr 17 x XOR rotr 19 x XOR drop_bit 10 x"

text \<open>The message schedule, newest word first: \<open>ws ! i\<close> is the word \<open>i + 1\<close> steps back.\<close>

fun schedule :: "nat \<Rightarrow> u32 list \<Rightarrow> u32 list" where
  "schedule 0 ws = ws"
| "schedule (Suc n) ws =
     schedule n ((sigma1 (ws ! 1) + ws ! 6 + sigma0 (ws ! 14) + ws ! 15) # ws)"

fun sha_round :: "sha_state \<Rightarrow> u32 \<times> u32 \<Rightarrow> sha_state" where
  "sha_round (a, b, c, d, e, f, g, h) (k, w) =
     (let t1 = h + Sigma1 e + Ch e f g + k + w;
          t2 = Sigma0 a + Maj a b c
      in (t1 + t2, a, b, c, d + t1, e, f, g))"

fun add_state :: "sha_state \<Rightarrow> sha_state \<Rightarrow> sha_state" where
  "add_state (a, b, c, d, e, f, g, h) (a', b', c', d', e', f', g', h') =
     (a + a', b + b', c + c', d + d', e + e', f + f', g + g', h + h')"

definition compress :: "sha_state \<Rightarrow> u32 list \<Rightarrow> sha_state" where
  "compress st block =
     add_state st (foldl sha_round st (zip K256 (rev (schedule 48 (rev block)))))"

definition be_word :: "byte \<Rightarrow> byte \<Rightarrow> byte \<Rightarrow> byte \<Rightarrow> u32" where
  "be_word a b c d =
     push_bit 24 (ucast a) OR push_bit 16 (ucast b) OR push_bit 8 (ucast c) OR ucast d"

fun be_words :: "byte list \<Rightarrow> u32 list" where
  "be_words (a # b # c # d # bs) = be_word a b c d # be_words bs"
| "be_words _ = []"

definition length_bytes :: "nat \<Rightarrow> byte list" where
  "length_bytes n =
     map (\<lambda>i. ucast (drop_bit (8 * i) (word_of_nat (8 * n) :: 64 word))) [7, 6, 5, 4, 3, 2, 1, 0]"

definition pad :: "byte list \<Rightarrow> byte list" where
  "pad m = m @ [0x80] @ replicate ((119 - length m mod 64) mod 64) 0 @ length_bytes (length m)"

fun blocks :: "nat \<Rightarrow> u32 list \<Rightarrow> u32 list list" where
  "blocks 0 ws = []"
| "blocks (Suc n) ws = take 16 ws # blocks n (drop 16 ws)"

definition sha256 :: "byte list \<Rightarrow> sha_state" where
  "sha256 m = (let ws = be_words (pad m) in foldl compress H256 (blocks (length ws div 16) ws))"

definition hex_digit :: "nat \<Rightarrow> char" where
  "hex_digit n = ''0123456789abcdef'' ! n"

definition hex_word :: "u32 \<Rightarrow> string" where
  "hex_word w = map (\<lambda>i. hex_digit (unat (drop_bit (4 * i) w AND 15))) [7, 6, 5, 4, 3, 2, 1, 0]"

fun hexdigest :: "sha_state \<Rightarrow> string" where
  "hexdigest (a, b, c, d, e, f, g, h) =
     hex_word a @ hex_word b @ hex_word c @ hex_word d @
     hex_word e @ hex_word f @ hex_word g @ hex_word h"

text \<open>A lowercase hexadecimal character, and the shape \<open>hex64\<close> of the outbound contract.\<close>

definition is_lower_hex :: "char \<Rightarrow> bool" where
  "is_lower_hex c = (c \<in> set ''0123456789abcdef'')"

definition hex64 :: "string \<Rightarrow> bool" where
  "hex64 s = (length s = 64 \<and> list_all is_lower_hex s)"

section \<open>Canonicalizer: \<open>hash_data\<close>\<close>

text \<open>
  \<^verbatim>\<open>if not value: return ""\<close> and then
  \<^verbatim>\<open>hashlib.sha256(value.strip().lower().encode()).hexdigest()\<close>. A truthy value that
  is not a \<open>str\<close> has no \<open>strip\<close>: AttributeError. A \<open>str\<close> whose stripped and
  lowercased form holds a surrogate makes \<open>encode\<close> raise UnicodeEncodeError.
\<close>

definition hash_data :: "pylib \<Rightarrow> pyval \<Rightarrow> pyerror + string" where
  "hash_data lib v =
     (if \<not> truthy v then Inr ''''
      else (case v of
              PStr s \<Rightarrow>
                (case utf8_encode (py_lower lib (py_strip s)) of
                   None \<Rightarrow> Inl UnicodeEncodeError
                 | Some bytes \<Rightarrow> Inr (hexdigest (sha256 bytes)))
            | _ \<Rightarrow> Inl AttributeError))"

section \<open>PIIHasher: \<open>hash_user_data\<close>\<close>

definition pii_fields :: "pydict \<Rightarrow> pydict" where
  "pii_fields user_data =
     [(''em'', dict_get user_data ''email'' (PStr [])),
      (''fn'', dict_get user_data ''first_name'' (PStr [])),
      (''ln'', dict_get user_data ''last_name'' (PStr [])),
      (''ph'', dict_get user_data ''phone'' (PStr [])),
      (''country'', dict_get user_data ''country'' (PStr [])),
      (''ct'', dict_get user_data ''city'' (PStr [])),
      (''zp'', dict_get user_data ''zip'' (PStr [])),
      (''external_id'', dict_get user_data ''external_id'' (PStr []))]"

text \<open>\<^verbatim>\<open>{k: hash_data(v) for k, v in pii_fields.items() if v}\<close>, in the order of the items;
  the first \<open>hash_data\<close> that raises ends the comprehension.\<close>

fun hash_items :: "pylib \<Rightarrow> pydict \<Rightarrow> pyerror + pydict" where
  "hash_items lib [] = Inr []"
| "hash_items lib ((k, v) # kvs) =
     (if truthy v then
        (case hash_data lib v of
           Inl e \<Rightarrow> Inl e
         | Inr h \<Rightarrow> (case hash_items lib kvs of
                       Inl e \<Rightarrow> Inl e
                     | Inr r \<Rightarrow> Inr ((k, PStr (str h)) # r)))
      else hash_items lib kvs)"

text \<open>The request id is only written to the log.\<close>

definition hash_user_data :: "pylib \<Rightarrow> pydict \<Rightarrow> pystr \<Rightarrow> pyerror + pydict" where
  "hash_user_data lib user_data request_id = hash_items lib (pii_fields user_data)"

section \<open>Library functions modelled in part\<close>

subsection \<open>\<open>ipaddress.ip_address\<close>\<close>

definition decimal :: "pystr \<Rightarrow> int" where
  "decimal s = foldl (\<lambda>acc c. 10 * acc + (c - 48)) 0 s"

text \<open>\<open>IPv4Address._parse_octet\<close>: one to three ASCII digits, no leading zero, at most 255.\<close>

definition parse_octet :: "pystr \<Rightarrow> bool" where
  "parse_octet s =
     (s \<noteq> [] \<and> list_all is_digit s \<and> length s \<le> 3 \<and>
      (s = [48] \<or> hd s \<noteq> 48) \<and> decimal s \<le> 255)"

text \<open>The address is split at its dots (code point 46).\<close>

definition ipv4_address :: "pystr \<Rightarrow> bool" where
  "ipv4_address s =
     (let octets = split_on 46 s in length octets = 4 \<and> list_all parse_octet octets)"

text \<open>
  \<open>ip_address\<close> tries IPv4 and then IPv6, and raises ValueError when both refuse. An IPv6
  text is split at its colons (code point 58) first, so a text without a colon is
  never one.
\<close>

definition ip_address :: "pylib \<Rightarrow> pystr \<Rightarrow> bool" where
  "ip_address lib s = (ipv4_address s \<or> (58 \<in> set s \<and> ipv6_address lib s))"

subsection \<open>\<open>FBP_REGEX.match\<close>\<close>

text \<open>
  \<^verbatim>\<open>re.compile(r'^fb\.1\.\d+\.\d+$')\<close>. In a \<open>str\<close> pattern \<open>\d\<close> matches every
  decimal digit of Unicode. A dot is no digit, so the greedy \<open>\d+\<close> never backtracks.
  Without the MULTILINE flag \<open>$\<close> matches at the end of the text and also just before
  a newline (code point 10) that ends it.
\<close>

fun strip_prefix :: "'a list \<Rightarrow> 'a list \<Rightarrow> 'a list option" where
  "strip_prefix [] s = Some s"
| "strip_prefix (p # ps) [] = None"
| "strip_prefix (p # ps) (c # cs) = (if p = c then strip_prefix ps cs else None)"

definition FBP_REGEX_match :: "pylib \<Rightarrow> pystr \<Rightarrow> bool" where
  "FBP_REGEX_match lib s =
     (case strip_prefix (str ''fb.1.'') s of
        None \<Rightarrow> False
      | Some r \<Rightarrow>
          takeWhile (py_isdecimal lib) r \<noteq> [] \<and>
          (case dropWhile (py_isdecimal lib) r of
             [] \<Rightarrow> False
           | c # r' \<Rightarrow>
               c = 46 \<and> takeWhile (py_isdecimal lib) r' \<noteq> [] \<and>
               (dropWhile (py_isdecimal lib) r' = [] \<or>
                dropWhile (py_isdecimal lib) r' = [10])))"

subsection \<open>\<open>float\<close>\<close>

function bit_length :: "int \<Rightarrow> nat" where
  "bit_length n = (if n \<le> 0 then 0 else Suc (bit_length (n div 2)))"
  by pat_completeness auto
termination
  by (relation "measure nat") auto

text \<open>\<open>float(n)\<close> for an \<open>int\<close>: the nearest double, ties to even; OverflowError from
  \<open>2 ^ 1024 - 2 ^ 970\<close> on, the midpoint above the largest double.\<close>

definition round_to_double :: "int \<Rightarrow> int" where
  "round_to_double n =
     (let a = \<bar>n\<bar>; sh = bit_length a - 53; q = a div 2 ^ sh; r = a mod 2 ^ sh
      in sgn n * (if 2 ^ sh < 2 * r \<or> (2 * r = 2 ^ sh \<and> odd q) then q + 1 else q) * 2 ^ sh)"

definition int_to_float :: "int \<Rightarrow> pyerror + pyfloat" where
  "int_to_float n =
     (if 2 ^ 1024 - 2 ^ 970 \<le> \<bar>n\<bar> then Inl OverflowError
      else Inr (Finite (of_int (round_to_double n))))"

text \<open>
  \<open>float(v)\<close>. A \<open>str\<close> that \<open>float\<close> accepts holds a decimal digit or spells
  \<open>inf\<close>, \<open>infinity\<close> or \<open>nan\<close> in ASCII letters, so it holds a decimal digit or an
  \<open>n\<close> or \<open>N\<close> (code points 110 and 78); the others raise ValueError, and
  \<open>float_of_str\<close> decides the rest.
\<close>

fun py_float :: "pylib \<Rightarrow> pyval \<Rightarrow> pyerror + pyfloat" where
  "py_float lib PNone = Inl TypeError"
| "py_float lib (PBool b) = Inr (Finite (if b then 1 else 0))"
| "py_float lib (PInt n) = int_to_float n"
| "py_float lib (PFloat x) = Inr x"
| "py_float lib (PStr s) =
     (if list_ex (\<lambda>c. py_isdecimal lib c \<or> c = 110 \<or> c = 78) s
      then (case float_of_str lib s of None \<Rightarrow> Inl ValueError | Some x \<Rightarrow> Inr x)
      else Inl ValueError)"
| "py_float lib (PList xs) = Inl TypeError"
| "py_float lib (PDict d) = Inl TypeError"

subsection \<open>\<open>str(v).lower() == 'null'\<close>\<close>

text \<open>
  The string form of None is \<open>None\<close>, of a bool \<open>True\<close> or \<open>False\<close>, of a number a
  numeral, \<open>inf\<close> or \<open>nan\<close>, of a list or dict it starts with a bracket. Only a \<open>str\<close>
  can have the string form \<open>null\<close>.
\<close>

fun str_lower_is_null :: "pylib \<Rightarrow> pyval \<Rightarrow> bool" where
  "str_lower_is_null lib (PStr s) = (py_lower lib s = str ''null'')"
| "str_lower_is_null lib _ = False"

section \<open>The payload and the request\<close>

record ClientPayload =
  event_name :: pystr
  event_time :: int
  event_source_url :: "pystr option"
  action_source :: pystr
  user_data :: pydict
  custom_data :: "pydict option"
  test_event_code :: "pystr option"

text \<open>What the code reads of the request: two headers and the peer address
  (\<open>request.client\<close> may be None).\<close>

record Request =
  x_forwarded_for :: "pystr option"
  client_host :: "pystr option"
  user_agent_header :: "pystr option"

record client_info =
  ip :: pystr
  user_agent :: pyval

text \<open>The dictionary \<open>validate_and_clean_data\<close> returns; its key \<open>custom_data\<close> is the
  field \<open>cleaned_custom_data\<close>.\<close>

record validated_data =
  client_ip :: pystr
  client_user_agent :: pyval
  fbp :: pyval
  fbc :: pyval
  cleaned_custom_data :: pydict

section \<open>RequestSignalExtractor: \<open>extract_client_info\<close>\<close>

text \<open>The forwarded-for chain is split at its commas (code point 44).\<close>

definition extract_client_info :: "Request \<Rightarrow> ClientPayload \<Rightarrow> pyerror + client_info" where
  "extract_client_info request payload =
     (let header_agent = PStr (case user_agent_header request of None \<Rightarrow> [] | Some a \<Rightarrow> a);
          payload_agent = dict_get (user_data payload) ''user_agent'' PNone;
          agent = (if truthy payload_agent then payload_agent else header_agent);
          forwarded = (case x_forwarded_for request of None \<Rightarrow> [] | Some h \<Rightarrow> h)
      in if forwarded \<noteq> []
         then Inr \<lparr>ip = py_strip (hd (split_on 44 forwarded)), user_agent = agent\<rparr>
         else (case client_host request of
                 None \<Rightarrow> Inl AttributeError
               | Some host \<Rightarrow> Inr \<lparr>ip = host, user_agent = agent\<rparr>))"

section \<open>EventSanitizer: \<open>validate_and_clean_data\<close>\<close>

text \<open>The address: \<open>ip_address\<close> is called on a non-empty text only, and its ValueError
  empties the address.\<close>

definition clean_ip :: "pylib \<Rightarrow> pystr \<Rightarrow> pystr" where
  "clean_ip lib a = (if a \<noteq> [] \<and> \<not> ip_address lib a then [] else a)"

text \<open>\<^verbatim>\<open>if fbp_val and not FBP_REGEX.match(fbp_val): fbp_val = ""\<close>. The match of a value
  that is no \<open>str\<close> raises TypeError.\<close>

definition clean_fbp :: "pylib \<Rightarrow> pyval \<Rightarrow> pyerror + pyval" where
  "clean_fbp lib v =
     (if truthy v then
        (case v of
           PStr s \<Rightarrow> Inr (if FBP_REGEX_match lib s then v else PStr [])
         | _ \<Rightarrow> Inl TypeError)
      else Inr v)"

text \<open>\<^verbatim>\<open>{k: v for k, v in custom_data.items() if v is not None and str(v).lower() != 'null'}\<close>
  on \<^verbatim>\<open>payload.custom_data or {}\<close>.\<close>

definition clean_custom_data :: "pylib \<Rightarrow> pydict option \<Rightarrow> pydict" where
  "clean_custom_data lib cd =
     filter (\<lambda>(k, v). v \<noteq> PNone \<and> \<not> str_lower_is_null lib v)
       (case cd of None \<Rightarrow> [] | Some d \<Rightarrow> d)"

text \<open>The \<open>try\<close> around \<open>float\<close> catches ValueError and TypeError and stores 0.0.\<close>

definition coerce_value :: "pylib \<Rightarrow> pyval \<Rightarrow> pyerror + pyval" where
  "coerce_value lib v =
     (case py_float lib v of
        Inr x \<Rightarrow> Inr (PFloat x)
      | Inl e \<Rightarrow> if e = ValueError \<or> e = TypeError then Inr (PFloat (Finite 0)) else Inl e)"

definition currency_required :: "pystr \<Rightarrow> pyerror" where
  "currency_required request_id =
     HTTPException 422
       [(''request_id'', PStr request_id),
        (''message'', PStr (str ''Currency is required when value is provided.''))]"

definition validate_and_clean_data ::
  "pylib \<Rightarrow> ClientPayload \<Rightarrow> client_info \<Rightarrow> pystr \<Rightarrow> pyerror + validated_data" where
  "validate_and_clean_data lib payload info request_id =
     (let cip = clean_ip lib (ip info) in
      case clean_fbp lib (dict_get (user_data payload) ''fbp'' (PStr [])) of
        Inl e \<Rightarrow> Inl e
      | Inr fbp_val \<Rightarrow>
          (let cleaned = clean_custom_data lib (custom_data payload);
               result = (\<lambda>c. \<lparr>client_ip = cip, client_user_agent = user_agent info,
                                fbp = fbp_val,
                                fbc = dict_get (user_data payload) ''fbc'' (PStr []),
                                cleaned_custom_data = c\<rparr>)
           in case map_of cleaned ''value'' of
                None \<Rightarrow> Inr (result cleaned)
              | Some v \<Rightarrow>
                  (case coerce_value lib v of
                     Inl e \<Rightarrow> Inl e
                   | Inr x \<Rightarrow>
                       (let cleaned' = AList.update ''value'' x cleaned
                        in if \<not> truthy (dict_get cleaned' ''currency'' PNone)
                           then Inl (currency_required request_id)
                           else Inr (result cleaned')))))"

section \<open>PayloadAssembler: \<open>build_meta_payload\<close>\<close>

definition opt_str :: "pystr option \<Rightarrow> pystr" where
  "opt_str x = (case x of None \<Rightarrow> [] | Some s \<Rightarrow> s)"

definition build_meta_payload :: "ClientPayload \<Rightarrow> validated_data \<Rightarrow> pydict \<Rightarrow> pyval" where
  "build_meta_payload payload validated hashed_pii =
     (let ud = [(''client_ip_address'', or_none (PStr (client_ip validated))),
                (''client_user_agent'', or_none (client_user_agent validated)),
                (''fbc'', or_none (fbc validated)),
                (''fbp'', or_none (fbp validated))];
          ud' = filter (\<lambda>(k, v). v \<noteq> PNone) (dict_update ud hashed_pii);
          event_data = [(''event_name'', PStr (event_name payload)),
                        (''event_time'', PInt (event_time payload)),
                        (''action_source'', PStr (action_source payload)),
                        (''user_data'', PDict ud'),
                        (''custom_data'', PDict (cleaned_custom_data validated))];
          event_data' = (if opt_str (event_source_url payload) \<noteq> []
                         then AList.update ''event_source_url''
                                (PStr (opt_str (event_source_url payload))) event_data
                         else event_data);
          meta_payload = [(''data'', PList [PDict event_data'])]
      in PDict (if opt_str (test_event_code payload) \<noteq> []
                then AList.update ''test_event_code''
                       (PStr (opt_str (test_event_code payload))) meta_payload
                else meta_payload))"

section \<open>Pipeline: \<open>process_event\<close>\<close>

text \<open>
  The stages in the order they are called. \<open>post\<close> is the outbound call with
  \<open>raise_for_status\<close> and \<open>response.json()\<close>: the decoded answer, or the text of the
  RequestException. The result carries the stages that ran.
\<close>

datatype stage = Extract | Sanitize | Hash | Assemble | Send

definition capi_url :: "pystr \<Rightarrow> pystr \<Rightarrow> pystr" where
  "capi_url pixel_id access_token =
     str ''https://graph.facebook.com/v19.0/'' @ pixel_id @
     str ''/events?access_token='' @ access_token"

definition process_event ::
  "pylib \<Rightarrow> (pystr \<Rightarrow> pyval \<Rightarrow> pystr + pyval) \<Rightarrow> ClientPayload \<Rightarrow> Request \<Rightarrow>
   pystr \<Rightarrow> pystr \<Rightarrow> pystr \<Rightarrow> stage list \<times> (pyerror + pyval)" where
  "process_event lib post payload request pixel_id access_token request_id =
     (case extract_client_info request payload of
        Inl e \<Rightarrow> ([Extract], Inl e)
      | Inr info \<Rightarrow>
     (case validate_and_clean_data lib payload info request_id of
        Inl e \<Rightarrow> ([Extract, Sanitize], Inl e)
      | Inr validated \<Rightarrow>
     (case hash_user_data lib (user_data payload) request_id of
        Inl e \<Rightarrow> ([Extract, Sanitize, Hash], Inl e)
      | Inr hashed_pii \<Rightarrow>
     (let meta_payload = build_meta_payload payload validated hashed_pii
      in case post (capi_url pixel_id access_token) meta_payload of
           Inl err \<Rightarrow>
             ([Extract, Sanitize, Hash, Assemble, Send],
              Inl (HTTPException 502
                     [(''request_id'', PStr request_id),
                      (''message'', PStr (str ''Failed to send event to Meta CAPI'')),
                      (''error'', PStr err)]))
         | Inr answer \<Rightarrow>
             ([Extract, Sanitize, Hash, Assemble, Send],
              Inr (PDict
                     [(''request_id'', PStr request_id),
                      (''status'', PStr (str ''success'')),
                      (''message'',
                       PStr (str ''Event processed and sent to Meta CAPI successfully'')),
                      (''meta_response'', answer)]))))))"

section \<open>Notions used in the statements\<close>

fun is_str :: "pyval \<Rightarrow> bool" where
  "is_str (PStr s) = True"
| "is_str _ = False"

text \<open>A value \<open>hash_data\<close> accepts: falsy, or a \<open>str\<close> whose stripped and lowercased
  form holds no surrogate.\<close>

fun hashable :: "pylib \<Rightarrow> pyval \<Rightarrow> bool" where
  "hashable lib (PStr s) = (\<not> list_ex is_surrogate (py_lower lib (py_strip s)))"
| "hashable lib v = (\<not> truthy v)"

text \<open>The fixed mapping from the human-readable keys to the provider keys.\<close>

definition field_mapping :: "(string \<times> string) list" where
  "field_mapping =
     [(''email'', ''em''), (''first_name'', ''fn''), (''last_name'', ''ln''),
      (''phone'', ''ph''), (''country'', ''country''), (''city'', ''ct''),
      (''zip'', ''zp''), (''external_id'', ''external_id'')]"

text \<open>The first source field, in the order of the mapping, that \<open>hash_data\<close> refuses.\<close>

definition first_refused :: "pylib \<Rightarrow> pydict \<Rightarrow> (string \<times> string) option" where
  "first_refused lib ud =
     find (\<lambda>(src, dst). \<not> hashable lib (dict_get ud src (PStr []))) field_mapping"



text \<open>
  Inputs for the closed examples. Few of them consult the library parameters: no
  example has an address with a colon, and none passes to \<open>float\<close> a text with a digit
  or an \<open>n\<close>; the texts with a code point above 127 that are lowercased hold only
  U+00E9, U+20AC, U+1F600 and surrogates, which \<open>str.lower\<close> leaves as they are; and of
  the decimal digits above 127 the examples use the Arabic-Indic ones, U+0660 to U+0669.
\<close>

definition example_lib :: pylib where
  "example_lib = \<lparr>ipv6_address = (\<lambda>s. False), float_of_str = (\<lambda>s. None),
                  unicode_lower = (\<lambda>s. s),
                  unicode_decimal = (\<lambda>c. 1632 \<le> c \<and> c \<le> 1641)\<rparr>"

definition example_payload :: "pydict \<Rightarrow> pydict option \<Rightarrow> ClientPayload" where
  "example_payload ud cd =
     \<lparr>event_name = str ''Purchase'', event_time = 1703980800, event_source_url = None,
      action_source = str ''website'', user_data = ud, custom_data = cd,
      test_event_code = None\<rparr>"

definition example_info :: client_info where
  "example_info = \<lparr>ip = str ''203.0.113.7'', user_agent = PStr (str ''Mozilla/5.0'')\<rparr>"

definition example_request :: Request where
  "example_request =
     \<lparr>x_forwarded_for = Some (str ''203.0.113.7, 10.0.0.1''),
      client_host = Some (str ''10.0.0.1''),
      user_agent_header = Some (str ''Mozilla/5.0'')\<rparr>"

section \<open>Digests\<close>

lemma hex_digit_lower: "n < 16 \<Longrightarrow> is_lower_hex (hex_digit n)"
  unfolding is_lower_hex_def hex_digit_def by (rule nth_mem) simp

lemma unat_and_15: "unat (w AND 15 :: u32) < 16"
proof -
  have "unat (w AND 15) \<le> unat (15 :: u32)"
    by (rule word_and_le1 [THEN word_le_nat_alt [THEN iffD1]])
  then show ?thesis by simp
qed

lemma hex_word_shape: "length (hex_word w) = 8 \<and> list_all is_lower_hex (hex_word w)"
  by (simp add: hex_word_def hex_digit_lower unat_and_15)

lemma hex64_hexdigest: "hex64 (hexdigest st)"
proof -
  obtain a b c d e f g h where "st = (a, b, c, d, e, f, g, h)"
    by (metis surj_pair)
  then show ?thesis by (simp add: hex64_def hex_word_shape)
qed

lemma py_lower_ascii: "list_all (\<lambda>c. c < 128) s \<Longrightarrow> py_lower lib s = map lower_char s"
  by (simp add: py_lower_def)

lemma canon_empty: "py_lower lib (py_strip []) = []"
  by (simp add: py_lower_def py_strip_def)

lemma utf8_encode_None: "utf8_encode s = None \<longleftrightarrow> list_ex is_surrogate s"
  by (simp add: utf8_encode_def)

lemma utf8_encode_Some:
  "utf8_encode s = Some bs \<longleftrightarrow> \<not> list_ex is_surrogate s \<and> bs = concat (map utf8_char s)"
  by (auto simp: utf8_encode_def)

lemma hash_data_falsy: "\<not> truthy v \<Longrightarrow> hash_data lib v = Inr []"
  by (simp add: hash_data_def)

lemma hash_data_not_str: "truthy v \<Longrightarrow> \<not> is_str v \<Longrightarrow> hash_data lib v = Inl AttributeError"
  by (cases v) (simp_all add: hash_data_def)

lemma hash_data_encoded:
  "s \<noteq> [] \<Longrightarrow> utf8_encode (py_lower lib (py_strip s)) = Some bs \<Longrightarrow>
   hash_data lib (PStr s) = Inr (hexdigest (sha256 bs))"
  by (simp add: hash_data_def)

lemma hash_data_surrogate:
  "s \<noteq> [] \<Longrightarrow> utf8_encode (py_lower lib (py_strip s)) = None \<Longrightarrow>
   hash_data lib (PStr s) = Inl UnicodeEncodeError"
  by (simp add: hash_data_def)

lemma falsy_hashable: "\<not> truthy v \<Longrightarrow> hashable lib v"
  by (cases v) (simp_all add: canon_empty)

lemma hashable_digest:
  "hashable lib v \<Longrightarrow> truthy v \<Longrightarrow> is_str v \<and> (\<exists>g. hash_data lib v = Inr g \<and> hex64 g)"
  by (cases v) (auto simp: hash_data_def utf8_encode_def hex64_hexdigest)

lemma not_hashable_raises:
  "\<not> hashable lib v \<Longrightarrow>
   truthy v \<and> hash_data lib v = Inl (if is_str v then UnicodeEncodeError else AttributeError)"
  using falsy_hashable [of v lib]
  by (cases v) (auto simp: hash_data_def utf8_encode_def)

lemma hash_data_Inr_hashable: "hash_data lib v = Inr g \<Longrightarrow> hashable lib v"
  using not_hashable_raises [of lib v] by auto

text \<open>What the comprehension of \<open>hash_user_data\<close> computes: the error of the first item
  \<open>hash_data\<close> refuses, or the digests of the truthy items.\<close>

lemma hash_items_find:
  "hash_items lib kvs =
     (case find (\<lambda>(k, v). \<not> hashable lib v) kvs of
        None \<Rightarrow>
          Inr (map (\<lambda>(k, v). (k, PStr (str (projr (hash_data lib v)))))
                 (filter (\<lambda>(k, v). truthy v) kvs))
      | Some (k, v) \<Rightarrow> Inl (if is_str v then UnicodeEncodeError else AttributeError))"
proof (induction kvs)
  case Nil
  then show ?case by simp
next
  case (Cons kv kvs)
  obtain k v where kv: "kv = (k, v)" by (cases kv)
  show ?case
  proof (cases "hashable lib v")
    case False
    from not_hashable_raises [OF False] False show ?thesis unfolding kv by simp
  next
    case True
    show ?thesis
    proof (cases "truthy v")
      case False
      with True Cons show ?thesis unfolding kv by (simp split: option.splits)
    next
      case t: True
      from hashable_digest [OF True t] obtain g where "hash_data lib v = Inr g" by blast
      with True t Cons show ?thesis unfolding kv by (simp split: option.splits)
    qed
  qed
qed

lemma map_of_map_filter:
  "distinct (map fst kvs) \<Longrightarrow>
   map_of (map (\<lambda>(k, v). (k, g v)) (filter (\<lambda>(k, v). P v) kvs)) k =
     (case map_of kvs k of None \<Rightarrow> None | Some v \<Rightarrow> if P v then Some (g v) else None)"
proof (induction kvs)
  case Nil
  then show ?case by simp
next
  case (Cons kv kvs)
  obtain k' v' where kv: "kv = (k', v')" by (cases kv)
  from Cons.prems kv have "k' \<notin> fst ` set kvs" by simp
  then have "map_of kvs k' = None" by (simp add: map_of_eq_None_iff)
  with Cons kv show ?case by (auto split: option.splits)
qed

subsection \<open>The digest of an address\<close>

text \<open>The digests of the bytes of \<open>foo@bar.com\<close> and of the nine bytes that encode
  U+00E9, U+20AC and U+1F600, computed by the definitions above.\<close>

lemma sha256_foo:
  "hexdigest (sha256 [102, 111, 111, 64, 98, 97, 114, 46, 99, 111, 109]) =
     ''0c7e6a405862e402eb76a70f8a26fc732d07c32931e9fae9ab1582911d2e8a3b''"
  by code_simp

lemma sha256_multibyte:
  "hexdigest (sha256 [195, 169, 226, 130, 172, 240, 159, 152, 128]) =
     ''df9226927fd572c1ee66eec85de1bb139497614899f36e4e90474cb71f6ef9d0''"
  by code_simp

lemma canon_spaced:
  "list_all (\<lambda>c. c < 128) (py_strip (str '' Foo@Bar.com '')) \<and>
   map lower_char (py_strip (str '' Foo@Bar.com '')) = str ''foo@bar.com''"
  by code_simp

lemma canon_plain:
  "list_all (\<lambda>c. c < 128) (py_strip (str ''foo@bar.com'')) \<and>
   map lower_char (py_strip (str ''foo@bar.com'')) = str ''foo@bar.com''"
  by code_simp

lemma canon_unicode_space:
  "list_all (\<lambda>c. c < 128) (py_strip ([160, 9] @ str ''FOO@bar.COM'' @ [8195, 10])) \<and>
   map lower_char (py_strip ([160, 9] @ str ''FOO@bar.COM'' @ [8195, 10])) = str ''foo@bar.com''"
  by code_simp

lemma utf8_foo:
  "utf8_encode (str ''foo@bar.com'') = Some [102, 111, 111, 64, 98, 97, 114, 46, 99, 111, 109]"
  by code_simp

lemma utf8_multibyte:
  "utf8_encode [233, 8364, 128512] = Some [195, 169, 226, 130, 172, 240, 159, 152, 128]"
  by code_simp

lemma str_not_Nil: "str (c # cs) \<noteq> []"
  by (simp add: str_def)

lemma hash_data_foo:
  assumes "list_all (\<lambda>c. c < 128) (py_strip s) \<and> map lower_char (py_strip s) = str ''foo@bar.com''"
    and "s \<noteq> []"
  shows "hash_data lib (PStr s) =
           Inr ''0c7e6a405862e402eb76a70f8a26fc732d07c32931e9fae9ab1582911d2e8a3b''"
proof -
  from assms(1) have "py_lower lib (py_strip s) = str ''foo@bar.com''"
    by (simp add: py_lower_ascii)
  then have "utf8_encode (py_lower lib (py_strip s)) =
               Some [102, 111, 111, 64, 98, 97, 114, 46, 99, 111, 109]"
    by (simp only: utf8_foo)
  from hash_data_encoded [OF assms(2) this] show ?thesis by (simp only: sha256_foo)
qed

text \<open>
  C2 as stated fails: a \<open>str\<close> can hold a lone surrogate (the JSON text \<open>"\ud800"\<close> is
  decoded to one), which has no UTF-8 encoding; \<open>encode\<close> raises UnicodeEncodeError and
  no digest is returned.
\<close>

theorem lone_surrogate_raises:
  "hash_data example_lib (PStr [55296]) = Inl UnicodeEncodeError"
  by code_simp

text \<open>
  C2, amended. \<open>hash_data\<close> returns the empty string for None and for the empty string,
  without raising. For a non-empty \<open>str\<close> whose stripped and lowercased form holds no
  surrogate it returns the hexadecimal SHA-256 digest, 64 lowercase hexadecimal
  characters, of the UTF-8 encoding of that form; when that form holds a surrogate it
  raises UnicodeEncodeError. Two non-empty texts with the same stripped and lowercased
  form get the same result. The texts \<open> Foo@Bar.com \<close>, \<open>foo@bar.com\<close> and
  \<open>FOO@bar.COM\<close> between a no-break space, a tab, an em space and a newline all have the
  digest \<open>0c7e6a40...8a3b\<close>, and the three code points U+00E9, U+20AC and U+1F600 are
  encoded in two, three and four bytes.
\<close>

theorem hash_data_canonical_digest:
  "hash_data lib PNone = Inr '''' \<and> hash_data lib (PStr []) = Inr '''' \<and>
   (s \<noteq> [] \<and> \<not> list_ex is_surrogate (py_lower lib (py_strip s)) \<longrightarrow>
      hash_data lib (PStr s) =
        Inr (hexdigest (sha256 (concat (map utf8_char (py_lower lib (py_strip s)))))) \<and>
      hex64 (hexdigest (sha256 (concat (map utf8_char (py_lower lib (py_strip s))))))) \<and>
   (s \<noteq> [] \<and> list_ex is_surrogate (py_lower lib (py_strip s)) \<longrightarrow>
      hash_data lib (PStr s) = Inl UnicodeEncodeError) \<and>
   (s \<noteq> [] \<and> t \<noteq> [] \<and> py_lower lib (py_strip s) = py_lower lib (py_strip t) \<longrightarrow>
      hash_data lib (PStr s) = hash_data lib (PStr t)) \<and>
   hash_data lib (PStr (str '' Foo@Bar.com '')) =
     Inr ''0c7e6a405862e402eb76a70f8a26fc732d07c32931e9fae9ab1582911d2e8a3b'' \<and>
   hash_data lib (PStr (str ''foo@bar.com'')) =
     Inr ''0c7e6a405862e402eb76a70f8a26fc732d07c32931e9fae9ab1582911d2e8a3b'' \<and>
   hash_data lib (PStr ([160, 9] @ str ''FOO@bar.COM'' @ [8195, 10])) =
     Inr ''0c7e6a405862e402eb76a70f8a26fc732d07c32931e9fae9ab1582911d2e8a3b'' \<and>
   utf8_encode [233, 8364, 128512] = Some [195, 169, 226, 130, 172, 240, 159, 152, 128]"
proof -
  have a: "hash_data lib PNone = Inr '''' \<and> hash_data lib (PStr []) = Inr ''''"
    by (simp add: hash_data_def)
  have b: "s \<noteq> [] \<and> \<not> list_ex is_surrogate (py_lower lib (py_strip s)) \<longrightarrow>
      hash_data lib (PStr s) =
        Inr (hexdigest (sha256 (concat (map utf8_char (py_lower lib (py_strip s)))))) \<and>
      hex64 (hexdigest (sha256 (concat (map utf8_char (py_lower lib (py_strip s))))))"
    by (simp add: hash_data_def utf8_encode_def hex64_hexdigest)
  have c: "s \<noteq> [] \<and> list_ex is_surrogate (py_lower lib (py_strip s)) \<longrightarrow>
      hash_data lib (PStr s) = Inl UnicodeEncodeError"
    by (simp add: hash_data_def utf8_encode_def)
  have d: "s \<noteq> [] \<and> t \<noteq> [] \<and> py_lower lib (py_strip s) = py_lower lib (py_strip t) \<longrightarrow>
      hash_data lib (PStr s) = hash_data lib (PStr t)"
    by (simp add: hash_data_def)
  have e1: "hash_data lib (PStr (str '' Foo@Bar.com '')) =
     Inr ''0c7e6a405862e402eb76a70f8a26fc732d07c32931e9fae9ab1582911d2e8a3b''"
    by (rule hash_data_foo [OF canon_spaced str_not_Nil])
  have e2: "hash_data lib (PStr (str ''foo@bar.com'')) =
     Inr ''0c7e6a405862e402eb76a70f8a26fc732d07c32931e9fae9ab1582911d2e8a3b''"
    by (rule hash_data_foo [OF canon_plain str_not_Nil])
  have e3: "hash_data lib (PStr ([160, 9] @ str ''FOO@bar.COM'' @ [8195, 10])) =
     Inr ''0c7e6a405862e402eb76a70f8a26fc732d07c32931e9fae9ab1582911d2e8a3b''"
    by (rule hash_data_foo [OF canon_unicode_space]) simp
  from a b c d e1 e2 e3 utf8_multibyte show ?thesis by (simp only: simp_thms)
qed

lemma canon_multibyte:
  "py_lower example_lib (py_strip [32, 233, 8364, 128512]) = [233, 8364, 128512] \<and>
   \<not> list_ex is_surrogate [233, 8364, 128512]"
  by code_simp

lemma canon_surrogate:
  "py_lower example_lib (py_strip [97, 57343]) = [97, 57343] \<and>
   list_ex is_surrogate [97, 57343]"
  by code_simp

theorem hash_data_canonical_digest_witness:
  "hash_data example_lib (PStr [32, 233, 8364, 128512]) =
     Inr ''df9226927fd572c1ee66eec85de1bb139497614899f36e4e90474cb71f6ef9d0'' \<and>
   hex64 ''df9226927fd572c1ee66eec85de1bb139497614899f36e4e90474cb71f6ef9d0'' \<and>
   hash_data example_lib (PStr [97, 57343]) = Inl UnicodeEncodeError \<and>
   hash_data example_lib (PStr (str '' Foo@Bar.com '')) =
     hash_data example_lib (PStr (str ''foo@bar.com'')) \<and>
   hash_data example_lib (PStr []) = Inr '''' \<and> hash_data example_lib PNone = Inr ''''"
proof -
  have enc: "concat (map utf8_char [233, 8364, 128512]) =
               [195, 169, 226, 130, 172, 240, 159, 152, 128]"
    using utf8_multibyte canon_multibyte by (simp add: utf8_encode_def)
  have ne: "[32, 233, 8364, 128512] \<noteq> ([] :: pystr)" "[97, 57343] \<noteq> ([] :: pystr)"
    by simp_all
  note multi = hash_data_canonical_digest [of example_lib "[32, 233, 8364, 128512]" "[]"]
  note lone = hash_data_canonical_digest [of example_lib "[97, 57343]" "[]"]
  note same = hash_data_canonical_digest
                [of example_lib "str '' Foo@Bar.com ''" "str ''foo@bar.com''"]
  from multi [THEN conjunct2, THEN conjunct2, THEN conjunct1] ne(1)
    canon_multibyte [THEN conjunct2]
  have one: "hash_data example_lib (PStr [32, 233, 8364, 128512]) =
     Inr ''df9226927fd572c1ee66eec85de1bb139497614899f36e4e90474cb71f6ef9d0'' \<and>
     hex64 ''df9226927fd572c1ee66eec85de1bb139497614899f36e4e90474cb71f6ef9d0''"
    by (simp only: canon_multibyte [THEN conjunct1] enc sha256_multibyte simp_thms)
  from lone [THEN conjunct2, THEN conjunct2, THEN conjunct2, THEN conjunct1] ne(2)
    canon_surrogate [THEN conjunct2]
  have two: "hash_data example_lib (PStr [97, 57343]) = Inl UnicodeEncodeError"
    by (simp only: canon_surrogate [THEN conjunct1] simp_thms)
  from same have three: "hash_data example_lib (PStr (str '' Foo@Bar.com '')) =
     hash_data example_lib (PStr (str ''foo@bar.com'')) \<and>
     hash_data example_lib (PStr []) = Inr '''' \<and> hash_data example_lib PNone = Inr ''''"
    by (simp only: simp_thms)
  from one two three show ?thesis by (simp only: simp_thms)
qed

section \<open>The hashed identity\<close>

lemma distinct_pii_fields: "distinct (map fst (pii_fields ud))"
  by (simp add: pii_fields_def)

lemma pii_fields_map:
  "pii_fields ud = map (\<lambda>(src, dst). (dst, dict_get ud src (PStr []))) field_mapping"
  by (simp add: pii_fields_def field_mapping_def)

lemma distinct_provider_keys: "distinct (map snd field_mapping)"
  by (simp add: field_mapping_def)

lemma map_of_renamed:
  "distinct (map snd fm) \<Longrightarrow> (src, dst) \<in> set fm \<Longrightarrow>
   map_of (map (\<lambda>(s, d). (d, f s)) fm) dst = Some (f src)"
  by (induction fm) force+

lemma map_of_pii_fields:
  "(src, dst) \<in> set field_mapping \<Longrightarrow>
   map_of (pii_fields ud) dst = Some (dict_get ud src (PStr []))"
  unfolding pii_fields_map by (rule map_of_renamed [OF distinct_provider_keys])

lemma pii_fields_keys:
  "(k, v) \<in> set (pii_fields ud) \<Longrightarrow>
   \<exists>src. (src, k) \<in> set field_mapping \<and> v = dict_get ud src (PStr [])"
  unfolding pii_fields_map by auto

lemma truthy_dict_get:
  "truthy (dict_get ud src (PStr [])) = (\<exists>v. map_of ud src = Some v \<and> truthy v)"
  by (simp add: dict_get_def split: option.splits)

lemma find_renamed:
  "find (\<lambda>(k, v). P v) (map (\<lambda>(s, d). (d, f s)) fm) =
     map_option (\<lambda>(s, d). (d, f s)) (find (\<lambda>(s, d). P (f s)) fm)"
  by (induction fm) auto

lemma hash_user_data_cases:
  "hash_user_data lib ud rid =
     (case first_refused lib ud of
        None \<Rightarrow>
          Inr (map (\<lambda>(k, v). (k, PStr (str (projr (hash_data lib v)))))
                 (filter (\<lambda>(k, v). truthy v) (pii_fields ud)))
      | Some (src, dst) \<Rightarrow>
          Inl (if is_str (dict_get ud src (PStr [])) then UnicodeEncodeError
               else AttributeError))"
  unfolding hash_user_data_def hash_items_find first_refused_def
  by (subst pii_fields_map) (simp add: find_renamed split: option.splits)

lemma first_refused_None:
  "first_refused lib ud = None \<longleftrightarrow>
     list_all (\<lambda>(src, dst). hashable lib (dict_get ud src (PStr []))) field_mapping"
  by (auto simp: first_refused_def find_None_iff list_all_iff)

lemma hashed_entries:
  assumes "hash_user_data lib ud rid = Inr h"
  shows "h = map (\<lambda>(k, v). (k, PStr (str (projr (hash_data lib v)))))
               (filter (\<lambda>(k, v). truthy v) (pii_fields ud)) \<and>
         (\<forall>k v. (k, v) \<in> set (pii_fields ud) \<longrightarrow> hashable lib v) \<and>
         distinct (map fst h) \<and>
         (\<forall>k d. (k, d) \<in> set h \<longrightarrow>
            k \<in> snd ` set field_mapping \<and> (\<exists>g. d = PStr (str g) \<and> hex64 g))"
proof -
  let ?kvs = "pii_fields ud"
  from assms have none: "first_refused lib ud = None"
    by (auto simp: hash_user_data_cases split: option.splits)
  with assms have h: "h = map (\<lambda>(k, v). (k, PStr (str (projr (hash_data lib v)))))
                          (filter (\<lambda>(k, v). truthy v) ?kvs)"
    by (simp add: hash_user_data_cases)
  from none have ok: "hashable lib v" if "(k, v) \<in> set ?kvs" for k v
    using that unfolding first_refused_None pii_fields_map by (auto simp: list_all_iff)
  have "map fst h = map fst (filter (\<lambda>(k, v). truthy v) ?kvs)"
    unfolding h by (induction ?kvs) auto
  then have dist: "distinct (map fst h)"
    using distinct_pii_fields [of ud] by (simp add: distinct_map_filter)
  have ent: "k \<in> snd ` set field_mapping \<and> (\<exists>g. d = PStr (str g) \<and> hex64 g)"
    if kd: "(k, d) \<in> set h" for k d
  proof -
    from kd h obtain v where v: "(k, v) \<in> set ?kvs" "truthy v"
      "d = PStr (str (projr (hash_data lib v)))"
      by auto
    from pii_fields_keys [OF v(1)] have "k \<in> snd ` set field_mapping" by force
    moreover from hashable_digest [OF ok [OF v(1)] v(2)] v(3)
    have "\<exists>g. d = PStr (str g) \<and> hex64 g" by auto
    ultimately show ?thesis by simp
  qed
  from h ok dist ent show ?thesis by blast
qed

lemma refused_phone:
  "first_refused example_lib [(''email'', PStr (str ''a@b.com'')), (''phone'', PInt 5)] =
     Some (''phone'', ''ph'') \<and>
   \<not> is_str (dict_get [(''email'', PStr (str ''a@b.com'')), (''phone'', PInt 5)]
                ''phone'' (PStr []))"
  by code_simp

text \<open>
  C1 as stated fails: with a present, non-empty email and a phone that is a number,
  \<open>hash_data\<close> raises AttributeError on the phone and no entry is produced at all.
\<close>

theorem number_beside_email_raises:
  "hash_user_data example_lib [(''email'', PStr (str ''a@b.com'')), (''phone'', PInt 5)]
     (str ''req-1'') = Inl AttributeError"
  by (simp only: hash_user_data_cases refused_phone option.case prod.case if_False)

text \<open>
  C1, amended. When each of the eight source fields is absent, falsy, or a \<open>str\<close> whose
  stripped and lowercased form holds no surrogate, \<open>hash_user_data\<close> returns a
  dictionary; it has an entry under a provider key exactly when the source field of
  that key is present with a truthy (non-empty) value; the entry is the digest
  \<open>hash_data\<close> returns for that source value; and every entry of the result sits under
  a provider key and is a 64-character lowercase hexadecimal digest, so no raw value
  appears in it.
\<close>

theorem hash_user_data_entries:
  assumes "list_all (\<lambda>(src, dst). hashable lib (dict_get ud src (PStr []))) field_mapping"
    and "(src, dst) \<in> set field_mapping"
  shows "\<exists>h. hash_user_data lib ud rid = Inr h \<and>
           (map_of h dst \<noteq> None \<longleftrightarrow> (\<exists>v. map_of ud src = Some v \<and> truthy v)) \<and>
           (\<forall>d. map_of h dst = Some d \<longrightarrow>
              (\<exists>v g. map_of ud src = Some v \<and> hash_data lib v = Inr g \<and>
                     d = PStr (str g) \<and> hex64 g)) \<and>
           (\<forall>k d. (k, d) \<in> set h \<longrightarrow>
              k \<in> snd ` set field_mapping \<and> (\<exists>g. d = PStr (str g) \<and> hex64 g))"
proof -
  let ?kvs = "pii_fields ud"
  let ?v = "dict_get ud src (PStr [])"
  let ?h = "map (\<lambda>(k, v). (k, PStr (str (projr (hash_data lib v)))))
              (filter (\<lambda>(k, v). truthy v) ?kvs)"
  from assms(1) have none: "first_refused lib ud = None" by (simp add: first_refused_None)
  then have run: "hash_user_data lib ud rid = Inr ?h" by (simp add: hash_user_data_cases)
  note he = hashed_entries [OF run]
  have look: "map_of ?h dst =
                (if truthy ?v then Some (PStr (str (projr (hash_data lib ?v)))) else None)"
    by (simp add: map_of_map_filter [OF distinct_pii_fields] map_of_pii_fields [OF assms(2)])
  have mem: "(dst, ?v) \<in> set ?kvs"
    using map_of_pii_fields [OF assms(2), of ud] by (rule map_of_SomeD)
  from he mem have ok: "hashable lib ?v" by blast
  have one: "map_of ?h dst \<noteq> None \<longleftrightarrow> (\<exists>v. map_of ud src = Some v \<and> truthy v)"
    by (simp add: look truthy_dict_get)
  have two: "\<exists>v g. map_of ud src = Some v \<and> hash_data lib v = Inr g \<and>
                   d = PStr (str g) \<and> hex64 g"
    if d: "map_of ?h dst = Some d" for d
  proof -
    from d look have t: "truthy ?v" and dv: "d = PStr (str (projr (hash_data lib ?v)))"
      by (auto split: if_splits)
    from t obtain v where v: "map_of ud src = Some v" "truthy v"
      by (auto simp: truthy_dict_get)
    then have eq: "?v = v" by (simp add: dict_get_def)
    from hashable_digest [OF ok t] obtain g where "hash_data lib ?v = Inr g" "hex64 g"
      by blast
    with v eq dv show ?thesis by auto
  qed
  from he have three: "\<forall>k d. (k, d) \<in> set ?h \<longrightarrow>
              k \<in> snd ` set field_mapping \<and> (\<exists>g. d = PStr (str g) \<and> hex64 g)"
    by blast
  from run one two three show ?thesis by blast
qed

theorem hash_user_data_entries_witness:
  "\<exists>h. hash_user_data example_lib
          [(''email'', PStr (str '' Foo@Bar.com '')), (''phone'', PStr [])] (str ''req-1'') =
          Inr h \<and>
        map_of h ''em'' =
          Some (PStr (str ''0c7e6a405862e402eb76a70f8a26fc732d07c32931e9fae9ab1582911d2e8a3b'')) \<and>
        map_of h ''ph'' = None"
proof -
  let ?ud = "[(''email'', PStr (str '' Foo@Bar.com '')), (''phone'', PStr [])]"
  have ok: "list_all (\<lambda>(src, dst). hashable example_lib (dict_get ?ud src (PStr [])))
              field_mapping"
    by code_simp
  have m1: "(''email'', ''em'') \<in> set field_mapping" by (simp add: field_mapping_def)
  have m2: "(''phone'', ''ph'') \<in> set field_mapping" by (simp add: field_mapping_def)
  have email: "map_of ?ud ''email'' = Some (PStr (str '' Foo@Bar.com ''))" by simp
  have phone: "map_of ?ud ''phone'' = Some (PStr [])" by simp
  have t: "truthy (PStr (str '' Foo@Bar.com ''))" by (simp add: str_def)
  obtain h where run: "hash_user_data example_lib ?ud (str ''req-1'') = Inr h"
    and em: "map_of h ''em'' \<noteq> None \<longleftrightarrow> (\<exists>v. map_of ?ud ''email'' = Some v \<and> truthy v)"
    and dg: "\<forall>d. map_of h ''em'' = Some d \<longrightarrow>
               (\<exists>v g. map_of ?ud ''email'' = Some v \<and> hash_data example_lib v = Inr g \<and>
                      d = PStr (str g) \<and> hex64 g)"
    using hash_user_data_entries [OF ok m1, of "str ''req-1''"]
    by (elim exE conjE) (rule that)
  obtain h' where run': "hash_user_data example_lib ?ud (str ''req-1'') = Inr h'"
    and ph: "map_of h' ''ph'' \<noteq> None \<longleftrightarrow> (\<exists>v. map_of ?ud ''phone'' = Some v \<and> truthy v)"
    using hash_user_data_entries [OF ok m2, of "str ''req-1''"]
    by (elim exE conjE) (rule that)
  from run run' have same: "h' = h" by simp
  from em email t obtain d where d: "map_of h ''em'' = Some d" by auto
  with dg obtain v g where v: "map_of ?ud ''email'' = Some v"
    and g: "hash_data example_lib v = Inr g" and dv: "d = PStr (str g)"
    by blast
  from v email have "v = PStr (str '' Foo@Bar.com '')" by simp
  with g hash_data_foo [OF canon_spaced str_not_Nil, of example_lib]
  have "g = ''0c7e6a405862e402eb76a70f8a26fc732d07c32931e9fae9ab1582911d2e8a3b''" by simp
  with d dv have one: "map_of h ''em'' =
      Some (PStr (str ''0c7e6a405862e402eb76a70f8a26fc732d07c32931e9fae9ab1582911d2e8a3b''))"
    by simp
  from ph phone same have two: "map_of h ''ph'' = None" by simp
  from run one two show ?thesis by blast
qed

lemma refused_email:
  "first_refused example_lib [(''email'', PInt 123)] = Some (''email'', ''em'') \<and>
   \<not> is_str (dict_get [(''email'', PInt 123)] ''email'' (PStr []))"
  by code_simp

text \<open>
  C8 as stated fails: a truthy source value that is no \<open>str\<close>, such as the number 123,
  reaches \<open>value.strip()\<close> in \<open>hash_data\<close> and raises AttributeError.
\<close>

theorem hash_user_data_number_raises:
  "hash_user_data example_lib [(''email'', PInt 123)] (str ''req-1'') = Inl AttributeError"
  by (simp only: hash_user_data_cases refused_email option.case prod.case if_False)

text \<open>
  C8, amended. \<open>hash_user_data\<close> succeeds exactly when each of the eight source fields
  is absent, falsy, or a \<open>str\<close> whose stripped and lowercased form holds no surrogate.
  Otherwise it raises the error of the first field, in the order of the mapping, that is
  none of these: AttributeError when the value is no \<open>str\<close>, UnicodeEncodeError when it
  is one.
\<close>

theorem hash_user_data_succeeds_iff:
  "(if list_all (\<lambda>(src, dst). hashable lib (dict_get ud src (PStr []))) field_mapping
    then \<exists>h. hash_user_data lib ud rid = Inr h
    else \<exists>src dst. first_refused lib ud = Some (src, dst) \<and>
           hash_user_data lib ud rid =
             Inl (if is_str (dict_get ud src (PStr [])) then UnicodeEncodeError
                  else AttributeError))"
proof (cases "first_refused lib ud")
  case None
  then show ?thesis
    by (simp add: hash_user_data_cases first_refused_None [symmetric])
next
  case (Some sd)
  obtain src dst where sd: "sd = (src, dst)" by (cases sd)
  from Some have "\<not> list_all (\<lambda>(src, dst). hashable lib (dict_get ud src (PStr [])))
                     field_mapping"
    by (simp add: first_refused_None [symmetric])
  with Some sd show ?thesis by (simp add: hash_user_data_cases)
qed

lemma succeeds_examples:
  "list_all (\<lambda>(src, dst). hashable example_lib
      (dict_get [(''email'', PStr (str ''a@b.com'')), (''zip'', PInt 0)] src (PStr [])))
      field_mapping \<and>
   \<not> list_all (\<lambda>(src, dst). hashable example_lib
      (dict_get [(''email'', PStr (str ''a@b.com'')), (''zip'', PInt 7)] src (PStr [])))
      field_mapping \<and>
   first_refused example_lib [(''email'', PStr (str ''a@b.com'')), (''zip'', PInt 7)] =
     Some (''zip'', ''zp'') \<and>
   \<not> is_str (dict_get [(''email'', PStr (str ''a@b.com'')), (''zip'', PInt 7)] ''zip'' (PStr [])) \<and>
   \<not> list_all (\<lambda>(src, dst). hashable example_lib
      (dict_get [(''city'', PStr [55296])] src (PStr []))) field_mapping \<and>
   first_refused example_lib [(''city'', PStr [55296])] = Some (''city'', ''ct'') \<and>
   is_str (dict_get [(''city'', PStr [55296])] ''city'' (PStr []))"
  by code_simp

theorem hash_user_data_succeeds_iff_witness:
  "(\<exists>h. hash_user_data example_lib
           [(''email'', PStr (str ''a@b.com'')), (''zip'', PInt 0)] (str ''req-1'') = Inr h) \<and>
   hash_user_data example_lib
     [(''email'', PStr (str ''a@b.com'')), (''zip'', PInt 7)] (str ''req-1'') =
     Inl AttributeError \<and>
   hash_user_data example_lib [(''city'', PStr [55296])] (str ''req-1'') =
     Inl UnicodeEncodeError"
proof -
  note ex = succeeds_examples
  from hash_user_data_succeeds_iff
         [of example_lib "[(''email'', PStr (str ''a@b.com'')), (''zip'', PInt 0)]" "str ''req-1''"]
  have one: "\<exists>h. hash_user_data example_lib
           [(''email'', PStr (str ''a@b.com'')), (''zip'', PInt 0)] (str ''req-1'') = Inr h"
    by (simp only: ex [THEN conjunct1] if_True)
  from hash_user_data_succeeds_iff
         [of example_lib "[(''email'', PStr (str ''a@b.com'')), (''zip'', PInt 7)]" "str ''req-1''"]
  have two: "hash_user_data example_lib
     [(''email'', PStr (str ''a@b.com'')), (''zip'', PInt 7)] (str ''req-1'') =
     Inl AttributeError"
    using ex by (auto simp only: if_False if_True option.inject prod.inject simp_thms)
  from hash_user_data_succeeds_iff [of example_lib "[(''city'', PStr [55296])]" "str ''req-1''"]
  have three: "hash_user_data example_lib [(''city'', PStr [55296])] (str ''req-1'') =
     Inl UnicodeEncodeError"
    using ex by (auto simp only: if_False if_True option.inject prod.inject simp_thms)
  from one two three show ?thesis by (simp only: simp_thms)
qed

section \<open>The sanitizer and the currency rule\<close>

lemma py_float_errors:
  "py_float lib v = Inl e \<Longrightarrow> e = TypeError \<or> e = ValueError \<or> e = OverflowError"
  by (cases v) (auto simp: int_to_float_def split: if_splits option.splits)


lemma coerce_value_failed:
  "py_float lib v = Inl ValueError \<or> py_float lib v = Inl TypeError \<Longrightarrow>
   coerce_value lib v = Inr (PFloat (Finite 0))"
  by (auto simp: coerce_value_def)

lemma coerce_value_cases:
  "coerce_value lib v = Inl OverflowError \<and> py_float lib v = Inl OverflowError \<or>
   (\<exists>x. coerce_value lib v = Inr (PFloat x) \<and> py_float lib v \<noteq> Inl OverflowError)"
  using py_float_errors [of lib v]
  by (cases "py_float lib v") (auto simp: coerce_value_def)

lemma dict_get_update_other:
  "k \<noteq> k' \<Longrightarrow> dict_get (AList.update k x d) k' dflt = dict_get d k' dflt"
  by (simp add: dict_get_def update_conv')

lemma clean_custom_data_lookup:
  "distinct (map fst d) \<Longrightarrow>
   map_of (clean_custom_data lib (Some d)) k =
     (case map_of d k of
        None \<Rightarrow> None
      | Some v \<Rightarrow> if v \<noteq> PNone \<and> \<not> str_lower_is_null lib v then Some v else None)"
proof (induction d)
  case Nil
  then show ?case by (simp add: clean_custom_data_def)
next
  case (Cons kv d)
  obtain k' v' where kv: "kv = (k', v')" by (cases kv)
  from Cons.prems kv have "k' \<notin> fst ` set d" by simp
  then have "map_of d k' = None" by (simp add: map_of_eq_None_iff)
  with Cons kv show ?case by (auto simp: clean_custom_data_def split: option.splits)
qed

lemma currency_required_iff_aux:
  "validate_and_clean_data lib p info rid = Inl (currency_required rid) \<longleftrightarrow>
     (\<exists>f. clean_fbp lib (dict_get (user_data p) ''fbp'' (PStr [])) = Inr f) \<and>
     (\<exists>v. map_of (clean_custom_data lib (custom_data p)) ''value'' = Some v \<and>
          py_float lib v \<noteq> Inl OverflowError) \<and>
     \<not> truthy (dict_get (clean_custom_data lib (custom_data p)) ''currency'' PNone)"
proof (cases "clean_fbp lib (dict_get (user_data p) ''fbp'' (PStr []))")
  case (Inl e)
  then have "validate_and_clean_data lib p info rid = Inl e"
    by (simp add: validate_and_clean_data_def)
  moreover from Inl have "e = TypeError"
    by (auto simp: clean_fbp_def split: if_splits pyval.splits)
  ultimately show ?thesis using Inl by (simp add: currency_required_def)
next
  case (Inr f)
  show ?thesis
  proof (cases "map_of (clean_custom_data lib (custom_data p)) ''value''")
    case None
    with Inr show ?thesis by (simp add: validate_and_clean_data_def)
  next
    case (Some v)
    from coerce_value_cases [of lib v] show ?thesis
    proof
      assume "coerce_value lib v = Inl OverflowError \<and> py_float lib v = Inl OverflowError"
      with Inr Some show ?thesis
        by (simp add: validate_and_clean_data_def currency_required_def)
    next
      assume "\<exists>x. coerce_value lib v = Inr (PFloat x) \<and> py_float lib v \<noteq> Inl OverflowError"
      with Inr Some show ?thesis
        by (auto simp: validate_and_clean_data_def dict_get_update_other)
    qed
  qed
qed

lemma example_fbp_absent:
  "clean_fbp example_lib (dict_get (user_data (example_payload [] cd)) ''fbp'' (PStr [])) =
     Inr (PStr [])"
  by (simp add: example_payload_def dict_get_def clean_fbp_def)





text \<open>
  C9 as stated fails: the non-numeric value \<open>null\<close> is dropped by the null-filter before
  the coercion, so the cleaned attributes hold no \<open>value\<close> entry at all.
\<close>

theorem null_value_is_dropped:
  "validate_and_clean_data example_lib
     (example_payload []
        (Some [(''value'', PStr (str ''null'')), (''currency'', PStr (str ''USD''))]))
     example_info (str ''req-1'') =
     Inr \<lparr>client_ip = str ''203.0.113.7'', client_user_agent = PStr (str ''Mozilla/5.0''),
          fbp = PStr [], fbc = PStr [],
          cleaned_custom_data = [(''currency'', PStr (str ''USD''))]\<rparr>"
  by code_simp

text \<open>
  C9, amended. When the \<open>value\<close> entry left by the null-filter is one that \<open>float\<close>
  refuses with ValueError or TypeError, a truthy \<open>currency\<close> entry is left by the
  null-filter, and the \<open>fbp\<close> value is absent, falsy or a \<open>str\<close>, sanitization succeeds
  and the cleaned attributes are the filtered ones with \<open>value\<close> set to 0.0.
\<close>

theorem non_numeric_value_becomes_zero:
  assumes "clean_fbp lib (dict_get (user_data p) ''fbp'' (PStr [])) = Inr f"
    and "map_of (clean_custom_data lib (custom_data p)) ''value'' = Some v"
    and "py_float lib v = Inl ValueError \<or> py_float lib v = Inl TypeError"
    and "truthy (dict_get (clean_custom_data lib (custom_data p)) ''currency'' PNone)"
  shows "\<exists>vd. validate_and_clean_data lib p info rid = Inr vd \<and>
              cleaned_custom_data vd =
                AList.update ''value'' (PFloat (Finite 0))
                  (clean_custom_data lib (custom_data p)) \<and>
              map_of (cleaned_custom_data vd) ''value'' = Some (PFloat (Finite 0))"
  using assms coerce_value_failed [OF assms(3)]
  by (simp add: validate_and_clean_data_def dict_get_update_other update_conv')

theorem non_numeric_value_becomes_zero_witness:
  "py_float example_lib (PStr (str ''abc'')) = Inl ValueError \<and>
   (\<exists>vd. validate_and_clean_data example_lib
            (example_payload []
               (Some [(''value'', PStr (str ''abc'')), (''currency'', PStr (str ''USD''))]))
            example_info (str ''req-1'') = Inr vd \<and>
         cleaned_custom_data vd =
           [(''value'', PFloat (Finite 0)), (''currency'', PStr (str ''USD''))] \<and>
         map_of (cleaned_custom_data vd) ''value'' = Some (PFloat (Finite 0)))"
proof -
  let ?p = "example_payload []
              (Some [(''value'', PStr (str ''abc'')), (''currency'', PStr (str ''USD''))])"
  have c: "clean_custom_data example_lib (custom_data ?p) =
             [(''value'', PStr (str ''abc'')), (''currency'', PStr (str ''USD''))]"
    by code_simp
  have f: "clean_fbp example_lib (dict_get (user_data ?p) ''fbp'' (PStr [])) = Inr (PStr [])"
    by (rule example_fbp_absent)
  have v: "map_of (clean_custom_data example_lib (custom_data ?p)) ''value'' =
             Some (PStr (str ''abc''))"
    by (simp add: c)
  have e: "py_float example_lib (PStr (str ''abc'')) = Inl ValueError"
    by code_simp
  have u: "truthy (PStr (str ''USD''))" by (simp add: str_def)
  have t: "truthy (dict_get (clean_custom_data example_lib (custom_data ?p)) ''currency'' PNone)"
    using u by (simp add: c dict_get_def)
  from non_numeric_value_becomes_zero [OF f v disjI1 [OF e] t, of example_info "str ''req-1''"] e
  show ?thesis by (simp add: c)
qed

text \<open>
  C10. The code does not keep it: in the mapping below the \<open>value\<close> entry survives the
  null-filter and the string form of the \<open>currency\<close> entry is \<open>null\<close> in capitals, so
  the filter drops the currency; but \<open>float\<close> of an integer from \<open>2 ^ 1024 - 2 ^ 970\<close>
  on raises OverflowError, which the \<open>try\<close> around it does not catch, and sanitization
  ends with that error before the currency is looked at, not with CurrencyRequired.
\<close>

theorem huge_value_overflows:
  "map_of (clean_custom_data example_lib
             (Some [(''value'', PInt (2 ^ 1024)), (''currency'', PStr (str ''NULL''))]))
     ''value'' = Some (PInt (2 ^ 1024)) \<and>
   str_lower_is_null example_lib (PStr (str ''NULL'')) \<and>
   map_of (clean_custom_data example_lib
             (Some [(''value'', PInt (2 ^ 1024)), (''currency'', PStr (str ''NULL''))]))
     ''currency'' = None \<and>
   validate_and_clean_data example_lib
     (example_payload []
        (Some [(''value'', PInt (2 ^ 1024)), (''currency'', PStr (str ''NULL''))]))
     example_info (str ''req-1'') = Inl OverflowError \<and>
   Inl OverflowError \<noteq> (Inl (currency_required (str ''req-1'')) :: pyerror + validated_data)"
  by code_simp

text \<open>
  Apart from the overflow the rule holds. For custom attributes with a \<open>value\<close> entry
  that the null-filter keeps and whose coercion does not overflow, and a \<open>currency\<close>
  entry whose string form is \<open>null\<close> in any letter case, with an \<open>fbp\<close> value that is
  absent, falsy or a \<open>str\<close>: the null-filter drops the currency entry and sanitization
  fails with CurrencyRequired.
\<close>

lemma null_currency_is_dropped:
  assumes "custom_data p = Some d" and "distinct (map fst d)"
    and "map_of d ''value'' = Some v" and "v \<noteq> PNone" and "\<not> str_lower_is_null lib v"
    and "map_of d ''currency'' = Some c" and "str_lower_is_null lib c"
    and "clean_fbp lib (dict_get (user_data p) ''fbp'' (PStr [])) = Inr f"
    and "py_float lib v \<noteq> Inl OverflowError"
  shows "map_of (clean_custom_data lib (custom_data p)) ''currency'' = None \<and>
         validate_and_clean_data lib p info rid = Inl (currency_required rid)"
proof -
  from assms have cur: "map_of (clean_custom_data lib (custom_data p)) ''currency'' = None"
    by (simp add: clean_custom_data_lookup)
  from assms have val: "map_of (clean_custom_data lib (custom_data p)) ''value'' = Some v"
    by (simp add: clean_custom_data_lookup)
  from cur have "\<not> truthy (dict_get (clean_custom_data lib (custom_data p)) ''currency'' PNone)"
    by (simp add: dict_get_def)
  with val assms(8,9) have "validate_and_clean_data lib p info rid = Inl (currency_required rid)"
    by (subst currency_required_iff_aux) auto
  with cur show ?thesis by simp
qed

lemma null_currency_example:
  "validate_and_clean_data example_lib
     (example_payload [] (Some [(''value'', PInt 10), (''currency'', PStr (str ''NULL''))]))
     example_info (str ''req-1'') =
     Inl (HTTPException 422
            [(''request_id'', PStr (str ''req-1'')),
             (''message'', PStr (str ''Currency is required when value is provided.''))])"
  by code_simp

section \<open>Field-level corrections\<close>






















section \<open>The pipeline\<close>

text \<open>
  C6. When the Sanitize stage fails with CurrencyRequired, \<open>process_event\<close> ends with
  that failure as its result; the stages that ran are Extract and Sanitize, Sanitize
  once, and neither Hash nor Assemble nor the outbound call.
\<close>

theorem sanitize_failure_aborts:
  assumes "extract_client_info request p = Inr info"
    and "validate_and_clean_data lib p info rid = Inl (currency_required rid)"
  shows "process_event lib post p request pixel_id access_token rid =
           ([Extract, Sanitize], Inl (currency_required rid)) \<and>
         Hash \<notin> set (fst (process_event lib post p request pixel_id access_token rid)) \<and>
         Assemble \<notin> set (fst (process_event lib post p request pixel_id access_token rid)) \<and>
         Send \<notin> set (fst (process_event lib post p request pixel_id access_token rid)) \<and>
         count_list (fst (process_event lib post p request pixel_id access_token rid)) Sanitize = 1"
  using assms by (simp add: process_event_def)

theorem sanitize_failure_aborts_witness:
  "process_event example_lib (\<lambda>url body. Inr body)
     (example_payload [(''email'', PStr (str ''a@b.com''))] (Some [(''value'', PInt 10)]))
     example_request (str ''PIXEL'') (str ''TOKEN'') (str ''req-1'') =
     ([Extract, Sanitize],
      Inl (HTTPException 422
             [(''request_id'', PStr (str ''req-1'')),
              (''message'', PStr (str ''Currency is required when value is provided.''))]))"
proof -
  let ?p = "example_payload [(''email'', PStr (str ''a@b.com''))] (Some [(''value'', PInt 10)])"
  have e: "extract_client_info example_request ?p =
             Inr \<lparr>ip = str ''203.0.113.7'', user_agent = PStr (str ''Mozilla/5.0'')\<rparr>"
    by code_simp
  have v: "validate_and_clean_data example_lib ?p
             \<lparr>ip = str ''203.0.113.7'', user_agent = PStr (str ''Mozilla/5.0'')\<rparr>
             (str ''req-1'') =
           Inl (currency_required (str ''req-1''))"
    by code_simp
  from sanitize_failure_aborts
         [OF e v, of "\<lambda>url body. Inr body" "str ''PIXEL''" "str ''TOKEN''"]
  show ?thesis by (simp add: currency_required_def)
qed

section \<open>The outbound document\<close>

lemma provider_key_not_signal:
  "k \<in> snd ` set field_mapping \<Longrightarrow>
   k \<noteq> ''client_ip_address'' \<and> k \<noteq> ''client_user_agent'' \<and> k \<noteq> ''fbc'' \<and> k \<noteq> ''fbp''"
  by (auto simp: field_mapping_def)

lemma distinct_dict_update:
  "distinct (map fst d) \<Longrightarrow> distinct (map fst (dict_update d e))"
  unfolding dict_update_def
  by (induction e arbitrary: d) (auto simp: distinct_update)

lemma map_of_dict_update:
  "distinct (map fst e) \<Longrightarrow>
   map_of (dict_update d e) k = (case map_of e k of None \<Rightarrow> map_of d k | Some v \<Rightarrow> Some v)"
proof (induction e arbitrary: d)
  case Nil
  then show ?case by (simp add: dict_update_def)
next
  case (Cons kv e)
  obtain k' v' where kv: "kv = (k', v')" by (cases kv)
  from Cons.prems kv have "k' \<notin> fst ` set e" by simp
  then have none: "map_of e k' = None" by (simp add: map_of_eq_None_iff)
  have step: "dict_update d (kv # e) = dict_update (AList.update k' v' d) e"
    by (simp add: dict_update_def kv)
  from Cons.prems have "distinct (map fst e)" by simp
  from Cons.IH [OF this, of "AList.update k' v' d"] none kv show ?case
    unfolding step by (auto simp: update_conv' split: option.splits)
qed

lemma map_of_filter_values:
  "distinct (map fst xs) \<Longrightarrow>
   map_of (filter (\<lambda>(k, v). P v) xs) k =
     (case map_of xs k of None \<Rightarrow> None | Some v \<Rightarrow> if P v then Some v else None)"
proof (induction xs)
  case Nil
  then show ?case by simp
next
  case (Cons kv xs)
  obtain k' v' where kv: "kv = (k', v')" by (cases kv)
  from Cons.prems kv have "k' \<notin> fst ` set xs" by simp
  then have "map_of xs k' = None" by (simp add: map_of_eq_None_iff)
  with Cons kv show ?case by (auto split: option.splits)
qed

text \<open>
  C4. For a hashed identity \<open>hp\<close> returned by \<open>hash_user_data\<close> on the payload's identity
  attributes, the outbound document is a dictionary whose \<open>data\<close> is a list of one
  event. The user data of the event has \<open>client_ip_address\<close>, \<open>client_user_agent\<close>,
  \<open>fbc\<close> and \<open>fbp\<close> exactly when the sanitized value is truthy (non-empty), and under
  every other key exactly the entry of \<open>hp\<close>; it holds no None. \<open>event_source_url\<close> is a
  key of the event, and \<open>test_event_code\<close> a key of the document, only when the payload
  has a non-empty one; no key is there with None. \<open>custom_data\<close> is the cleaned custom
  attributes as they are.
\<close>

theorem outbound_document:
  assumes "hash_user_data lib (user_data p) rid = Inr hp"
  shows "\<exists>ud ev.
     build_meta_payload p vd hp =
       PDict ((''data'', PList [PDict ev]) #
              (if opt_str (test_event_code p) \<noteq> []
               then [(''test_event_code'', PStr (opt_str (test_event_code p)))] else [])) \<and>
     ev = [(''event_name'', PStr (event_name p)), (''event_time'', PInt (event_time p)),
           (''action_source'', PStr (action_source p)), (''user_data'', PDict ud),
           (''custom_data'', PDict (cleaned_custom_data vd))] @
          (if opt_str (event_source_url p) \<noteq> []
           then [(''event_source_url'', PStr (opt_str (event_source_url p)))] else []) \<and>
     distinct (map fst ud) \<and> PNone \<notin> snd ` set ud \<and>
     map_of ud ''client_ip_address'' =
       (if client_ip vd \<noteq> [] then Some (PStr (client_ip vd)) else None) \<and>
     map_of ud ''client_user_agent'' =
       (if truthy (client_user_agent vd) then Some (client_user_agent vd) else None) \<and>
     map_of ud ''fbc'' = (if truthy (fbc vd) then Some (fbc vd) else None) \<and>
     map_of ud ''fbp'' = (if truthy (fbp vd) then Some (fbp vd) else None) \<and>
     (\<forall>k. k \<noteq> ''client_ip_address'' \<and> k \<noteq> ''client_user_agent'' \<and> k \<noteq> ''fbc'' \<and>
          k \<noteq> ''fbp'' \<longrightarrow> map_of ud k = map_of hp k)"
proof -
  let ?base = "[(''client_ip_address'', or_none (PStr (client_ip vd))),
               (''client_user_agent'', or_none (client_user_agent vd)),
               (''fbc'', or_none (fbc vd)), (''fbp'', or_none (fbp vd))]"
  let ?merged = "dict_update ?base hp"
  let ?ud = "filter (\<lambda>(k, v). v \<noteq> PNone) ?merged"
  note he = hashed_entries [OF assms]
  have dh: "distinct (map fst hp)"
    by (rule he [THEN conjunct2, THEN conjunct2, THEN conjunct1])
  have ent: "\<forall>k d. (k, d) \<in> set hp \<longrightarrow>
      k \<in> snd ` set field_mapping \<and> (\<exists>g. d = PStr (str g) \<and> hex64 g)"
    by (rule he [THEN conjunct2, THEN conjunct2, THEN conjunct2])
  have d0: "distinct (map fst ?base)" by simp
  have d1: "distinct (map fst ?merged)" by (rule distinct_dict_update [OF d0])
  have d: "distinct (map fst ?ud)" using d1 by (rule distinct_map_filter)
  have nn: "PNone \<notin> snd ` set ?ud" by auto
  have look: "map_of ?ud k =
      (case (case map_of hp k of None \<Rightarrow> map_of ?base k | Some v \<Rightarrow> Some v) of
         None \<Rightarrow> None | Some v \<Rightarrow> if v \<noteq> PNone then Some v else None)" for k
    by (simp only: map_of_filter_values [OF d1] map_of_dict_update [OF dh])
  have absent: "map_of hp k = None"
    if "k = ''client_ip_address'' \<or> k = ''client_user_agent'' \<or> k = ''fbc'' \<or> k = ''fbp''" for k
  proof (cases "map_of hp k")
    case None
    then show ?thesis .
  next
    case (Some v)
    then have "(k, v) \<in> set hp" by (rule map_of_SomeD)
    with ent have "k \<in> snd ` set field_mapping" by blast
    from provider_key_not_signal [OF this] that show ?thesis by blast
  qed
  have hv: "v \<noteq> PNone" if "map_of hp k = Some v" for k v
  proof -
    from that have "(k, v) \<in> set hp" by (rule map_of_SomeD)
    with ent show ?thesis by blast
  qed
  have l1: "map_of ?ud ''client_ip_address'' =
       (if client_ip vd \<noteq> [] then Some (PStr (client_ip vd)) else None)"
    unfolding look by (simp add: absent or_none_def)
  have l2: "map_of ?ud ''client_user_agent'' =
       (if truthy (client_user_agent vd) then Some (client_user_agent vd) else None)"
    unfolding look by (cases "client_user_agent vd") (simp_all add: absent or_none_def)
  have l3: "map_of ?ud ''fbc'' = (if truthy (fbc vd) then Some (fbc vd) else None)"
    unfolding look by (cases "fbc vd") (simp_all add: absent or_none_def)
  have l4: "map_of ?ud ''fbp'' = (if truthy (fbp vd) then Some (fbp vd) else None)"
    unfolding look by (cases "fbp vd") (simp_all add: absent or_none_def)
  have l5: "map_of ?ud k = map_of hp k"
    if "k \<noteq> ''client_ip_address'' \<and> k \<noteq> ''client_user_agent'' \<and> k \<noteq> ''fbc'' \<and> k \<noteq> ''fbp''" for k
    using that hv [of k] unfolding look by (cases "map_of hp k") simp_all
  have doc: "build_meta_payload p vd hp =
       PDict ((''data'', PList [PDict
          ([(''event_name'', PStr (event_name p)), (''event_time'', PInt (event_time p)),
            (''action_source'', PStr (action_source p)), (''user_data'', PDict ?ud),
            (''custom_data'', PDict (cleaned_custom_data vd))] @
           (if opt_str (event_source_url p) \<noteq> []
            then [(''event_source_url'', PStr (opt_str (event_source_url p)))] else []))]) #
              (if opt_str (test_event_code p) \<noteq> []
               then [(''test_event_code'', PStr (opt_str (test_event_code p)))] else []))"
    by (simp add: build_meta_payload_def Let_def)
  from doc d nn l1 l2 l3 l4 l5 show ?thesis by blast
qed

theorem outbound_document_witness:
  "\<exists>ud ev.
     build_meta_payload
       (example_payload [(''email'', PStr (str '' Foo@Bar.com ''))]
          (Some [(''currency'', PStr (str ''USD'')), (''value'', PFloat (Finite 99.99))]))
       \<lparr>client_ip = str ''203.0.113.7'', client_user_agent = PStr (str ''Mozilla/5.0''),
        fbp = PStr [], fbc = PStr [],
        cleaned_custom_data =
          [(''currency'', PStr (str ''USD'')), (''value'', PFloat (Finite 99.99))]\<rparr>
       [(''em'',
         PStr (str ''0c7e6a405862e402eb76a70f8a26fc732d07c32931e9fae9ab1582911d2e8a3b''))] =
       PDict [(''data'', PList [PDict ev])] \<and>
     map_of ev ''user_data'' = Some (PDict ud) \<and>
     map_of ev ''custom_data'' =
       Some (PDict [(''currency'', PStr (str ''USD'')), (''value'', PFloat (Finite 99.99))]) \<and>
     map_of ev ''event_source_url'' = None \<and>
     map_of ud ''fbp'' = None \<and> map_of ud ''fbc'' = None \<and>
     map_of ud ''client_ip_address'' = Some (PStr (str ''203.0.113.7'')) \<and>
     map_of ud ''em'' =
       Some (PStr (str ''0c7e6a405862e402eb76a70f8a26fc732d07c32931e9fae9ab1582911d2e8a3b''))"
proof -
  let ?p = "example_payload [(''email'', PStr (str '' Foo@Bar.com ''))]
              (Some [(''currency'', PStr (str ''USD'')), (''value'', PFloat (Finite 99.99))])"
  let ?vd = "\<lparr>client_ip = str ''203.0.113.7'', client_user_agent = PStr (str ''Mozilla/5.0''),
        fbp = PStr [], fbc = PStr [],
        cleaned_custom_data =
          [(''currency'', PStr (str ''USD'')), (''value'', PFloat (Finite 99.99))]\<rparr>"
  let ?hp = "[(''em'',
         PStr (str ''0c7e6a405862e402eb76a70f8a26fc732d07c32931e9fae9ab1582911d2e8a3b''))]"
  have t: "truthy (PStr (str '' Foo@Bar.com ''))" by (simp add: str_def)
  have a: "str ''203.0.113.7'' \<noteq> []" by (simp add: str_def)
  have run: "hash_user_data example_lib (user_data ?p) (str ''req-1'') = Inr ?hp"
    using t hash_data_foo [OF canon_spaced str_not_Nil, of example_lib]
    by (simp add: example_payload_def hash_user_data_def pii_fields_def dict_get_def)
  from outbound_document [OF run, of ?vd] a show ?thesis
    apply (elim exE conjE)
    subgoal for ud ev
      apply (drule spec [of _ "''em''"])
      apply (rule exI [of _ ud], rule exI [of _ ev])
      apply (simp add: example_payload_def opt_str_def)
      done
    done
qed

section \<open>The digest of the empty string\<close>

lemma sha256_empty:
  "hexdigest (sha256 []) = ''e3b0c44298fc1c149afbf4c8996fb92427ae41e4649b934ca495991b7852b855''"
  by code_simp

lemma canon_blank: "utf8_encode (py_lower example_lib (py_strip (str ''   ''))) = Some []"
  by code_simp

text \<open>
  C7. The code does not keep it: an email of three spaces is truthy, so it passes the
  filter \<open>if v\<close> and the guard \<open>if not value\<close>, is stripped to the empty string, and
  the entry \<open>em\<close> is the SHA-256 digest of the empty string.
\<close>

theorem blank_email_sends_empty_digest:
  "hash_user_data example_lib [(''email'', PStr (str ''   ''))] (str ''req-1'') =
     Inr [(''em'',
           PStr (str ''e3b0c44298fc1c149afbf4c8996fb92427ae41e4649b934ca495991b7852b855''))] \<and>
   utf8_encode (str '''') = Some [] \<and>
   hexdigest (sha256 []) =
     ''e3b0c44298fc1c149afbf4c8996fb92427ae41e4649b934ca495991b7852b855''"
proof -
  have "hash_data example_lib (PStr (str ''   '')) = Inr (hexdigest (sha256 []))"
    by (rule hash_data_encoded [OF str_not_Nil canon_blank])
  then have h: "hash_data example_lib (PStr (str ''   '')) =
             Inr ''e3b0c44298fc1c149afbf4c8996fb92427ae41e4649b934ca495991b7852b855''"
    by (simp only: sha256_empty)
  have t: "truthy (PStr (str ''   ''))" by (simp add: str_def)
  have e: "utf8_encode (str '''') = Some []"
    by (simp add: utf8_encode_def str_def)
  from h t have "hash_user_data example_lib [(''email'', PStr (str ''   ''))] (str ''req-1'') =
     Inr [(''em'',
           PStr (str ''e3b0c44298fc1c149afbf4c8996fb92427ae41e4649b934ca495991b7852b855''))]"
    by (simp add: hash_user_data_def pii_fields_def dict_get_def)
  with e sha256_empty show ?thesis by (simp only: simp_thms)
qed

end
